theory Spec2Isabelle
  imports Complex_Main
begin

section \<open>JavaScript numbers\<close>

text \<open>
  The sources compute with JavaScript numbers. Finite values are modelled as exact
  reals (no rounding, no overflow); the three special values a division can produce
  are kept, so that a division by zero is a visible result of the model and not the
  HOL convention \<open>x / 0 = 0\<close>. The only zero that reaches a divisor here is
  \<open>x - x\<close>, which is \<open>+0\<close>, so zero is taken as positive.
\<close>

datatype jsnum = Finite real | Infinity | NegInfinity | NaN

fun js_add :: "jsnum \<Rightarrow> jsnum \<Rightarrow> jsnum" where
  "js_add NaN _ = NaN"
| "js_add _ NaN = NaN"
| "js_add (Finite a) (Finite b) = Finite (a + b)"
| "js_add Infinity NegInfinity = NaN"
| "js_add NegInfinity Infinity = NaN"
| "js_add Infinity _ = Infinity"
| "js_add _ Infinity = Infinity"
| "js_add NegInfinity _ = NegInfinity"
| "js_add _ NegInfinity = NegInfinity"

fun js_mul :: "jsnum \<Rightarrow> jsnum \<Rightarrow> jsnum" where
  "js_mul NaN _ = NaN"
| "js_mul _ NaN = NaN"
| "js_mul (Finite a) (Finite b) = Finite (a * b)"
| "js_mul (Finite a) Infinity = (if a = 0 then NaN else if 0 < a then Infinity else NegInfinity)"
| "js_mul (Finite a) NegInfinity = (if a = 0 then NaN else if 0 < a then NegInfinity else Infinity)"
| "js_mul Infinity (Finite b) = (if b = 0 then NaN else if 0 < b then Infinity else NegInfinity)"
| "js_mul NegInfinity (Finite b) = (if b = 0 then NaN else if 0 < b then NegInfinity else Infinity)"
| "js_mul Infinity Infinity = Infinity"
| "js_mul Infinity NegInfinity = NegInfinity"
| "js_mul NegInfinity Infinity = NegInfinity"
| "js_mul NegInfinity NegInfinity = Infinity"

fun js_div :: "jsnum \<Rightarrow> jsnum \<Rightarrow> jsnum" where
  "js_div NaN _ = NaN"
| "js_div _ NaN = NaN"
| "js_div (Finite a) (Finite b) =
     (if b \<noteq> 0 then Finite (a / b)
      else if a = 0 then NaN
      else if 0 < a then Infinity else NegInfinity)"
| "js_div (Finite a) Infinity = Finite 0"
| "js_div (Finite a) NegInfinity = Finite 0"
| "js_div Infinity (Finite b) = (if 0 \<le> b then Infinity else NegInfinity)"
| "js_div NegInfinity (Finite b) = (if 0 \<le> b then NegInfinity else Infinity)"
| "js_div Infinity Infinity = NaN"
| "js_div Infinity NegInfinity = NaN"
| "js_div NegInfinity Infinity = NaN"
| "js_div NegInfinity NegInfinity = NaN"

text \<open>\<open>Number.isFinite\<close>.\<close>

fun isFinite :: "jsnum \<Rightarrow> bool" where
  "isFinite (Finite _) = True"
| "isFinite _ = False"

text \<open>
  What a \<open>throw\<close> or a rejected promise carries: an \<open>Error\<close> with its message,
  or the event object that the event source's error handler rejects with.
\<close>

datatype error = Error string | ErrorEvent

section \<open>Latency statistics\<close>

text \<open>
  \<open>calculateJitter(samples)\<close>, the same body in \<open>UDPSpeedTest\<close>
  (webrtc-speed-test.js) and in \<open>WebRTCSpeedTestIntegration\<close>
  (webrtc-integration.js):
  \<^verbatim>\<open>
    if (samples.length < 2) return 0;
    let jitterSum = 0;
    for (let i = 1; i < samples.length; i++) {
        jitterSum += Math.abs(samples[i] - samples[i - 1]);
    }
    return jitterSum / (samples.length - 1);
  \<close>
  The loop is \<open>jitterLoop\<close>, started at \<open>i = 1\<close> with \<open>jitterSum = 0\<close>; every
  index it reads is in range.
\<close>

function jitterLoop :: "real list \<Rightarrow> nat \<Rightarrow> real \<Rightarrow> real" where
  "jitterLoop samples i jitterSum =
     (if i < length samples
      then jitterLoop samples (i + 1) (jitterSum + \<bar>samples ! i - samples ! (i - 1)\<bar>)
      else jitterSum)"
  by pat_completeness auto
termination
  by (relation "measure (\<lambda>(samples, i, jitterSum). length samples - i)") auto

definition calculateJitter :: "real list \<Rightarrow> real" where
  "calculateJitter samples =
     (if length samples < 2 then 0
      else jitterLoop samples 1 0 / real (length samples - 1))"

text \<open>\<open>pingResults.reduce((a, b) => a + b, 0) / pingResults.length\<close>.\<close>

definition averageOf :: "real list \<Rightarrow> real" where
  "averageOf pingResults = foldl (\<lambda>a b. a + b) 0 pingResults / real (length pingResults)"

text \<open>
  The throughput expression, written the same way at every place that computes a speed
  (\<open>stopDownloadTest\<close>, \<open>stopUploadTest\<close>, \<open>updateDownloadSpeed\<close>,
  \<open>updateUploadSpeed\<close> and the four places in \<open>UDPSpeedTest\<close>):
  \<^verbatim>\<open>(bytes * 8) / (duration / 1000) / 1000000\<close>
  with \<open>duration = performance.now() - startTime\<close> in milliseconds. No place tests
  the duration before dividing.
\<close>

definition speedMbpsOf :: "jsnum \<Rightarrow> real \<Rightarrow> jsnum" where
  "speedMbpsOf bytes duration =
     js_div (js_div (js_mul bytes (Finite 8)) (js_div (Finite duration) (Finite 1000)))
            (Finite 1000000)"

text \<open>
  The formula of the specification, for a byte count \<open>B\<close> and \<open>T\<close> elapsed
  seconds: \<open>(B * 8) / (T * 1_000_000)\<close>. It is what the code's results are compared
  with; no source function is modelled by it.
\<close>

definition spec_throughputMbps :: "real \<Rightarrow> real \<Rightarrow> real" where
  "spec_throughputMbps B T = (B * 8) / (T * 1000000)"

section \<open>Result objects\<close>

text \<open>
  The result objects of the phases, one constructor per shape:
  \<^item> \<open>UdpPing average jitter samples\<close>: \<open>{average, jitter, samples, protocol: 'UDP'}\<close>;
  \<^item> \<open>Average average protocol\<close>: \<open>{average, protocol}\<close>, the average \<open>null\<close>
    when \<open>measureLatency\<close> resolved \<open>null\<close>;
  \<^item> \<open>UdpTransfer duration bytes packets speedMbps\<close>: the download and upload results
    of \<open>UDPSpeedTest\<close>, \<open>protocol: 'UDP'\<close>;
  \<^item> \<open>Speed speedMbps protocol\<close>: \<open>{speedMbps, protocol}\<close>.
\<close>

datatype phase_result =
    UdpPing real real "real list"
  | Average "real option" string
  | UdpTransfer real nat nat jsnum
  | Speed jsnum string

record test_results =
  ping :: "phase_result option"
  download :: "phase_result option"
  upload :: "phase_result option"
  protocol :: string

section \<open>UDPSpeedTest\<close>

text \<open>
  Of the object's fields the modelled methods read \<open>serverInfo\<close> (\<open>null\<close> until
  the control server answered), \<open>config.pingCount\<close> and \<open>config.packetSize\<close>.
\<close>

record udp_test =
  serverInfo :: "string option"
  pingCount :: nat
  packetSize :: nat

definition UDPSpeedTest_new :: udp_test where
  "UDPSpeedTest_new = \<lparr>serverInfo = None, pingCount = 10, packetSize = 1024\<rparr>"

text \<open>
  The sample loop of \<open>startPingTest\<close>. \<open>sendUDPPing\<close> never rejects: it resolves
  the latency, or \<open>null\<close> on any failure or after 5 s. \<open>pings i\<close> is what call
  number \<open>i\<close> resolved; a \<open>null\<close> is skipped.
\<close>

function pingLoop :: "(nat \<Rightarrow> real option) \<Rightarrow> nat \<Rightarrow> nat \<Rightarrow> real list \<Rightarrow> real list" where
  "pingLoop pings count i pingResults =
     (if i < count
      then pingLoop pings count (i + 1)
             (case pings i of Some latency \<Rightarrow> pingResults @ [latency] | None \<Rightarrow> pingResults)
      else pingResults)"
  by pat_completeness auto
termination
  by (relation "measure (\<lambda>(pings, count, i, pingResults). count - i)") auto

definition startPingTest :: "udp_test \<Rightarrow> (nat \<Rightarrow> real option) \<Rightarrow> error + phase_result" where
  "startPingTest u pings =
     (if serverInfo u = None then Inl (Error ''Server not available'')
      else let pingResults = pingLoop pings (pingCount u) 0 []
           in if length pingResults > 0
              then Inr (UdpPing (averageOf pingResults) (calculateJitter pingResults) pingResults)
              else Inl (Error ''No successful ping responses received''))"

text \<open>
  The download of \<open>UDPSpeedTest\<close> reads server-sent events until the promise is
  settled: a \<open>data\<close> message adds \<open>data.size || this.config.packetSize\<close>, a
  \<open>complete\<close> message (handled at the given clock reading) resolves, any other or
  unparsable message is ignored, the event source's error rejects with the event, and
  when nothing settled it the timer rejects.
\<close>

datatype sse_event = Data "nat option" | Complete real | Other | SourceError

fun downloadLoop :: "udp_test \<Rightarrow> real \<Rightarrow> nat \<Rightarrow> nat \<Rightarrow> sse_event list \<Rightarrow> error + phase_result" where
  "downloadLoop u startTime bytesReceived packetsReceived [] =
     Inl (Error ''Download test timeout'')"
| "downloadLoop u startTime bytesReceived packetsReceived (Data sz # events) =
     downloadLoop u startTime
       (bytesReceived + (case sz of None \<Rightarrow> packetSize u
                         | Some n \<Rightarrow> if n \<noteq> 0 then n else packetSize u))
       (packetsReceived + 1) events"
| "downloadLoop u startTime bytesReceived packetsReceived (Complete now # events) =
     Inr (UdpTransfer (now - startTime) bytesReceived packetsReceived
            (speedMbpsOf (Finite (real bytesReceived)) (now - startTime)))"
| "downloadLoop u startTime bytesReceived packetsReceived (Other # events) =
     downloadLoop u startTime bytesReceived packetsReceived events"
| "downloadLoop u startTime bytesReceived packetsReceived (SourceError # events) =
     Inl ErrorEvent"

definition udp_startDownloadTest :: "udp_test \<Rightarrow> real \<Rightarrow> sse_event list \<Rightarrow> error + phase_result" where
  "udp_startDownloadTest u startTime events =
     (if serverInfo u = None then Inl (Error ''Server not available'')
      else downloadLoop u startTime 0 0 events)"

text \<open>
  The upload of \<open>UDPSpeedTest\<close> posts one packet every 10 ms and counts a packet when
  its request has completed; after the test duration the timer resolves with what was
  counted. \<open>packetsSent\<close> is the count at that moment, \<open>now\<close> the clock then.
\<close>

definition udp_startUploadTest :: "udp_test \<Rightarrow> real \<Rightarrow> real \<Rightarrow> nat \<Rightarrow> error + phase_result" where
  "udp_startUploadTest u startTime now packetsSent =
     (if serverInfo u = None then Inl (Error ''Server not available'')
      else let bytesSent = packetsSent * packetSize u
           in Inr (UdpTransfer (now - startTime) bytesSent packetsSent
                     (speedMbpsOf (Finite (real bytesSent)) (now - startTime))))"

section \<open>WebRTCSpeedTest\<close>

text \<open>
  A message of the data channel is a string, an \<open>ArrayBuffer\<close> (with its
  \<open>byteLength\<close>) or a \<open>Blob\<close> (with its \<open>size\<close>). \<open>payloadBytes\<close> is
  what \<open>+= data.byteLength || data.length\<close> adds: a string has no \<open>byteLength\<close>
  and gives its \<open>length\<close> (here the length of the character list); an
  \<open>ArrayBuffer\<close> gives its \<open>byteLength\<close> unless that is \<open>0\<close>, which is
  falsy, and then as a \<open>Blob\<close> does it gives \<open>undefined\<close>, which the addition
  turns into \<open>NaN\<close>.
\<close>

datatype payload = Text string | ArrayBuffer nat | Blob nat

fun payloadBytes :: "payload \<Rightarrow> jsnum" where
  "payloadBytes (Text s) = Finite (real (length s))"
| "payloadBytes (ArrayBuffer byteLength) =
     (if byteLength \<noteq> 0 then Finite (real byteLength) else NaN)"
| "payloadBytes (Blob _) = NaN"

datatype ready_state = Connecting | Open | Closing | Closed

record download_stats =
  startTime :: real
  bytesReceived :: jsnum
  packetsReceived :: nat

record upload_stats =
  startTime_up :: real
  bytesSent :: jsnum
  packetsSent :: nat

text \<open>
  \<open>dataChannel\<close> is \<open>null\<close> or a channel, of which only \<open>readyState\<close> is read.
  The field \<open>startTime\<close> of \<open>uploadStats\<close> is \<open>startTime_up\<close> here.
\<close>

record webrtc_test =
  dataChannel :: "ready_state option"
  isTestRunning :: bool
  downloadStats :: download_stats
  uploadStats :: upload_stats

definition WebRTCSpeedTest_new :: webrtc_test where
  "WebRTCSpeedTest_new =
     \<lparr>dataChannel = None, isTestRunning = False,
      downloadStats = \<lparr>startTime = 0, bytesReceived = Finite 0, packetsReceived = 0\<rparr>,
      uploadStats = \<lparr>startTime_up = 0, bytesSent = Finite 0, packetsSent = 0\<rparr>\<rparr>"

text \<open>
  \<open>startDownloadTest\<close> and \<open>startUploadTest\<close>: \<open>now\<close> is the reading of
  \<open>performance.now()\<close> in the call. The duration argument only goes into the request
  and into the timer that later calls \<open>stopDownloadTest\<close> (\<open>stopUploadTest\<close>); the
  timer's call is a call of the stop function at the clock reading of that moment.
  \<open>dataChannel.send\<close> of the request is taken to return on an open channel; if it
  threw, the fields would be set as here and no timer would be started.
\<close>

definition startDownloadTest :: "real \<Rightarrow> webrtc_test \<Rightarrow> bool \<times> webrtc_test" where
  "startDownloadTest now w =
     (if dataChannel w \<noteq> Some Open then (False, w)
      else (True, w\<lparr>isTestRunning := True,
                    downloadStats := \<lparr>startTime = now, bytesReceived = Finite 0,
                                      packetsReceived = 0\<rparr>\<rparr>))"

definition startUploadTest :: "real \<Rightarrow> webrtc_test \<Rightarrow> bool \<times> webrtc_test" where
  "startUploadTest now w =
     (if dataChannel w \<noteq> Some Open then (False, w)
      else (True, w\<lparr>isTestRunning := True,
                    uploadStats := \<lparr>startTime_up = now, bytesSent = Finite 0,
                                    packetsSent = 0\<rparr>\<rparr>))"

text \<open>
  \<open>updateDownloadSpeed\<close> and \<open>updateUploadSpeed\<close>: the speed handed to the progress
  callback, \<open>None\<close> when the method returns at its guard.
\<close>

definition updateDownloadSpeed :: "real \<Rightarrow> webrtc_test \<Rightarrow> jsnum option" where
  "updateDownloadSpeed now w =
     (if \<not> isTestRunning w then None
      else Some (speedMbpsOf (bytesReceived (downloadStats w)) (now - startTime (downloadStats w))))"

definition updateUploadSpeed :: "real \<Rightarrow> webrtc_test \<Rightarrow> jsnum option" where
  "updateUploadSpeed now w =
     (if \<not> isTestRunning w then None
      else Some (speedMbpsOf (bytesSent (uploadStats w)) (now - startTime_up (uploadStats w))))"

text \<open>
  \<open>handleIncomingData\<close>, the channel's \<open>onmessage\<close> handler: the new state and the
  progress notification.
\<close>

definition handleIncomingData :: "real \<Rightarrow> payload \<Rightarrow> webrtc_test \<Rightarrow> webrtc_test \<times> jsnum option" where
  "handleIncomingData now data w =
     (if \<not> isTestRunning w then (w, None)
      else let w' = w\<lparr>downloadStats := (downloadStats w)
                        \<lparr>bytesReceived := js_add (bytesReceived (downloadStats w)) (payloadBytes data),
                         packetsReceived := packetsReceived (downloadStats w) + 1\<rparr>\<rparr>
           in (w', updateDownloadSpeed now w'))"

text \<open>The messages of a stretch of time, each with the clock reading at its arrival.\<close>

definition receiveAll :: "(real \<times> payload) list \<Rightarrow> webrtc_test \<Rightarrow> webrtc_test" where
  "receiveAll msgs w = foldl (\<lambda>w' (now, data). fst (handleIncomingData now data w')) w msgs"

text \<open>
  The interval callback of \<open>startUploadTest\<close>, once per element: the clock reading
  and whether \<open>dataChannel.send\<close> returned. The interval is cleared, and the remaining
  ticks never run, when the test is no longer running or when \<open>send\<close> threw.
  The packet is an \<open>ArrayBuffer\<close> of \<open>1024 * 16\<close> bytes.
\<close>

fun uploadTicks :: "(real \<times> bool) list \<Rightarrow> webrtc_test \<Rightarrow> webrtc_test" where
  "uploadTicks [] w = w"
| "uploadTicks ((now, sent) # ticks) w =
     (if \<not> isTestRunning w then w
      else if sent
      then uploadTicks ticks
             (w\<lparr>uploadStats := (uploadStats w)
                   \<lparr>bytesSent := js_add (bytesSent (uploadStats w)) (Finite (1024 * 16)),
                    packetsSent := packetsSent (uploadStats w) + 1\<rparr>\<rparr>)
      else w)"

text \<open>
  \<open>stopDownloadTest\<close> and \<open>stopUploadTest\<close>: the new state and the \<open>speedMbps\<close>
  that is logged and handed to \<open>onDownloadComplete\<close> (\<open>onUploadComplete\<close>).
\<close>

definition stopDownloadTest :: "real \<Rightarrow> webrtc_test \<Rightarrow> webrtc_test \<times> jsnum" where
  "stopDownloadTest now w =
     (let duration = now - startTime (downloadStats w);
          speedMbps = speedMbpsOf (bytesReceived (downloadStats w)) duration
      in (w\<lparr>isTestRunning := False\<rparr>, speedMbps))"

definition stopUploadTest :: "real \<Rightarrow> webrtc_test \<Rightarrow> webrtc_test \<times> jsnum" where
  "stopUploadTest now w =
     (let duration = now - startTime_up (uploadStats w);
          speedMbps = speedMbpsOf (bytesSent (uploadStats w)) duration
      in (w\<lparr>isTestRunning := False\<rparr>, speedMbps))"

text \<open>
  \<open>measureLatency\<close> resolves \<open>null\<close> when the channel is not open, and otherwise
  what the wait for the pong gave: the latency, or \<open>null\<close> after 5 s.
  \<open>dataChannel.send\<close> of the ping is taken to return on an open channel; a rejection
  of the promise by a throwing \<open>send\<close> is not modelled.
\<close>

definition measureLatency :: "webrtc_test \<Rightarrow> real option \<Rightarrow> real option" where
  "measureLatency w pong = (if dataChannel w \<noteq> Some Open then None else pong)"

section \<open>MultiProtocolSpeedTest\<close>

text \<open>
  The fields of the engine that the modelled methods read. \<open>preferredProtocol\<close>,
  \<open>enableComparison\<close> and \<open>autoFallback\<close> are the fields of \<open>this.config\<close>.
\<close>

record engine =
  webrtcTest :: "webrtc_test option"
  udpTest :: "udp_test option"
  availableProtocols :: "string list"
  currentProtocol :: string
  comparisonMode :: bool
  preferredProtocol :: string
  enableComparison :: bool
  autoFallback :: bool

definition MultiProtocolSpeedTest_new :: engine where
  "MultiProtocolSpeedTest_new =
     \<lparr>webrtcTest = None, udpTest = None, availableProtocols = [],
      currentProtocol = ''auto'', comparisonMode = False,
      preferredProtocol = ''udp'', enableComparison = True, autoFallback = True\<rparr>"

text \<open>\<open>Array.prototype.includes\<close> (\<open>includes\<close> is a keyword of Isabelle).\<close>

fun includes_of :: "'a list \<Rightarrow> 'a \<Rightarrow> bool" where
  "includes_of [] x = False"
| "includes_of (y # ys) x = (if y = x then True else includes_of ys x)"

text \<open>
  What \<open>initialize\<close> finds in the page and on the network: whether
  \<open>window.WebRTCSpeedTest && window.RTCPeerConnection\<close> holds, whether
  \<open>initializePeerConnection\<close> returned \<open>true\<close>, whether \<open>window.UDPSpeedTest\<close>
  exists, and the server information that \<open>UDPSpeedTest.initialize\<close> obtained
  (\<open>None\<close> when it returned \<open>false\<close>). \<open>initialize\<close> returns \<open>true\<close>
  unless building the selector of the page throws, which is not modelled.
\<close>

record init_env =
  hasWebRTC :: bool
  peerConnectionOk :: bool
  hasUDP :: bool
  udpServer :: "string option"

text \<open>
  The part of \<open>setupProtocolSelector\<close> that sets fields of the engine (the rest builds
  the page's selector).
\<close>

definition setupProtocolSelector :: "engine \<Rightarrow> engine" where
  "setupProtocolSelector e =
     (let e' = (if includes_of (availableProtocols e) (preferredProtocol e)
                then e\<lparr>currentProtocol := preferredProtocol e\<rparr> else e)
      in e'\<lparr>comparisonMode := enableComparison e'\<rparr>)"

definition initialize :: "init_env \<Rightarrow> engine \<Rightarrow> bool \<times> engine" where
  "initialize env e =
     (let e1 = (if hasWebRTC env
                then let e' = e\<lparr>webrtcTest := Some WebRTCSpeedTest_new\<rparr>
                     in if peerConnectionOk env
                        then e'\<lparr>availableProtocols := availableProtocols e' @ [''webrtc'']\<rparr>
                        else e'
                else e);
          e2 = (if hasUDP env
                then let e' = e1\<lparr>udpTest := Some (UDPSpeedTest_new\<lparr>serverInfo := udpServer env\<rparr>)\<rparr>
                     in if udpServer env \<noteq> None
                        then e'\<lparr>availableProtocols := availableProtocols e' @ [''udp'']\<rparr>
                        else e'
                else e1);
          e3 = e2\<lparr>availableProtocols := availableProtocols e2 @ [''http'']\<rparr>
      in (True, setupProtocolSelector e3))"

definition getSelectedProtocol :: "engine \<Rightarrow> string" where
  "getSelectedProtocol e =
     (if currentProtocol e = ''auto''
      then if includes_of (availableProtocols e) ''udp'' then ''udp''
           else if includes_of (availableProtocols e) ''webrtc'' then ''webrtc''
           else ''http''
      else currentProtocol e)"

text \<open>
  What the network and the clock give during a run: for \<open>UDPSpeedTest\<close> the ping
  replies, the start time and the events of the download, the start time, the clock at
  the end and the number of completed requests of the upload; for
  \<open>WebRTCSpeedTest\<close> the pong, and for the download and the upload the clock at the
  start, what happened while the test ran, and the clock when the timer stopped it.
\<close>

record run_env =
  udpPings :: "nat \<Rightarrow> real option"
  udpDownloadStart :: real
  udpDownloadEvents :: "sse_event list"
  udpUploadStart :: real
  udpUploadStop :: real
  udpUploadCount :: nat
  rtcPong :: "real option"
  rtcDownloadStart :: real
  rtcDownloadMsgs :: "(real \<times> payload) list"
  rtcDownloadStop :: real
  rtcUploadStart :: real
  rtcUploadTicks :: "(real \<times> bool) list"
  rtcUploadStop :: real

text \<open>\<open>try { results.x = await phase } catch (error) { console.error(...) }\<close>.\<close>

fun caught :: "error + 'a \<Rightarrow> 'a option" where
  "caught (Inl err) = None"
| "caught (Inr r) = Some r"

definition runUDPTest :: "engine \<Rightarrow> run_env \<Rightarrow> error + test_results" where
  "runUDPTest e env =
     (case udpTest e of
        None \<Rightarrow> Inl (Error ''UDP testing not available'')
      | Some u \<Rightarrow>
          Inr \<lparr>ping = caught (startPingTest u (udpPings env)),
               download = caught (udp_startDownloadTest u (udpDownloadStart env) (udpDownloadEvents env)),
               upload = caught (udp_startUploadTest u (udpUploadStart env) (udpUploadStop env)
                                  (udpUploadCount env)),
               protocol = ''udp''\<rparr>)"

text \<open>
  In \<open>runWebRTCTest\<close> the download promise is resolved by \<open>onDownloadComplete\<close>,
  which \<open>stopDownloadTest\<close> calls; when \<open>startDownloadTest\<close> returned \<open>false\<close>
  no timer was set, the promise is rejected after \<open>testDuration + 5000\<close> ms, the error
  is caught and \<open>results.download\<close> stays \<open>null\<close>. The upload is alike.
\<close>

definition runWebRTCTest :: "engine \<Rightarrow> run_env \<Rightarrow> error + test_results" where
  "runWebRTCTest e env =
     (case webrtcTest e of
        None \<Rightarrow> Inl (Error ''WebRTC testing not available'')
      | Some w \<Rightarrow>
          let latency = measureLatency w (rtcPong env);
              (startedDown, w1) = startDownloadTest (rtcDownloadStart env) w;
              (w2, downloadSpeed) = stopDownloadTest (rtcDownloadStop env)
                                      (receiveAll (rtcDownloadMsgs env) w1);
              w3 = (if startedDown then w2 else w1);
              (startedUp, w4) = startUploadTest (rtcUploadStart env) w3;
              (w5, uploadSpeed) = stopUploadTest (rtcUploadStop env)
                                    (uploadTicks (rtcUploadTicks env) w4)
          in Inr \<lparr>ping = Some (Average latency ''webrtc''),
                  download = (if startedDown then Some (Speed downloadSpeed ''webrtc'') else None),
                  upload = (if startedUp then Some (Speed uploadSpeed ''webrtc'') else None),
                  protocol = ''webrtc''\<rparr>)"

definition runHTTPTest :: "engine \<Rightarrow> error + test_results" where
  "runHTTPTest e =
     Inr \<lparr>ping = Some (Average (Some 50) ''http''),
          download = Some (Speed (Finite 100) ''http''),
          upload = Some (Speed (Finite 50) ''http''),
          protocol = ''http''\<rparr>"

definition runProtocolTest :: "engine \<Rightarrow> run_env \<Rightarrow> string \<Rightarrow> error + test_results" where
  "runProtocolTest e env p =
     (if p = ''udp'' then runUDPTest e env
      else if p = ''webrtc'' then runWebRTCTest e env
      else if p = ''http'' then runHTTPTest e
      else Inl (Error (''Unknown protocol: '' @ p)))"

text \<open>
  \<open>runSingleProtocolTest\<close>: the protocols handed to \<open>runProtocolTest\<close>, in the order
  of the calls, and what the method returns or throws.
\<close>

definition runSingleProtocolTest :: "engine \<Rightarrow> run_env \<Rightarrow> string list \<times> (error + test_results)" where
  "runSingleProtocolTest e env =
     (let p = getSelectedProtocol e
      in case runProtocolTest e env p of
           Inr results \<Rightarrow> ([p], Inr (results\<lparr>protocol := p\<rparr>))
         | Inl err \<Rightarrow>
             if autoFallback e \<and> p \<noteq> ''http''
             then ([p, ''http''], runProtocolTest e env ''http'')
             else ([p], Inl err))"

text \<open>
  The \<open>results\<close> object of \<open>runComparisonTest\<close> is a list of keys with their values,
  in the order in which \<open>Object.entries\<close> gives them. \<open>assign\<close> keeps the order
  of first assignment, which is that order for the names \<open>initialize\<close> pushes
  (\<open>webrtc\<close>, \<open>udp\<close>, \<open>http\<close>); names that are array indices, which a
  JavaScript object lists first, are outside the model. An entry is the result of the
  protocol's test or \<open>{error: error.message, protocol}\<close>.
\<close>

datatype comparison_entry = Tested test_results | Failed "string option" string

fun message :: "error \<Rightarrow> string option" where
  "message (Error m) = Some m"
| "message ErrorEvent = None"

fun assign :: "'k \<Rightarrow> 'v \<Rightarrow> ('k \<times> 'v) list \<Rightarrow> ('k \<times> 'v) list" where
  "assign k v [] = [(k, v)]"
| "assign k v ((k', v') # kvs) = (if k' = k then (k, v) # kvs else (k', v') # assign k v kvs)"

fun comparisonLoop ::
  "engine \<Rightarrow> run_env \<Rightarrow> string list \<Rightarrow> string list \<times> (string \<times> comparison_entry) list
     \<Rightarrow> string list \<times> (string \<times> comparison_entry) list" where
  "comparisonLoop e env [] (attempted, results) = (attempted, results)"
| "comparisonLoop e env (p # ps) (attempted, results) =
     comparisonLoop e env ps
       (attempted @ [p],
        (case runProtocolTest e env p of
           Inr testResult \<Rightarrow> assign p (Tested (testResult\<lparr>protocol := p\<rparr>)) results
         | Inl err \<Rightarrow> assign p (Failed (message err) p) results))"

text \<open>
  \<open>runComparisonTest\<close>: the protocols handed to \<open>runProtocolTest\<close>, in the order of
  the calls, and the \<open>results\<close> object.
\<close>

definition runComparisonTest :: "engine \<Rightarrow> run_env \<Rightarrow> string list \<times> (string \<times> comparison_entry) list" where
  "runComparisonTest e env = comparisonLoop e env (availableProtocols e) ([], [])"

section \<open>Example inputs\<close>

text \<open>
  A page on which both test classes are loaded and both servers answer, a page without
  the UDP test script, and a network on which nothing answers during a run: no ping
  reply, no download event, no completed upload request, no pong, no message.
\<close>

definition full_page :: init_env where
  "full_page = \<lparr>hasWebRTC = True, peerConnectionOk = True, hasUDP = True,
                  udpServer = Some ''udp-server''\<rparr>"

definition page_without_udp :: init_env where
  "page_without_udp = \<lparr>hasWebRTC = True, peerConnectionOk = True, hasUDP = False,
                         udpServer = None\<rparr>"

definition silent_network :: run_env where
  "silent_network =
     \<lparr>udpPings = (\<lambda>i. None), udpDownloadStart = 0, udpDownloadEvents = [],
      udpUploadStart = 0, udpUploadStop = 10000, udpUploadCount = 0,
      rtcPong = None, rtcDownloadStart = 0, rtcDownloadMsgs = [], rtcDownloadStop = 10000,
      rtcUploadStart = 11000, rtcUploadTicks = [], rtcUploadStop = 21000\<rparr>"

section \<open>The loops in closed form\<close>

declare jitterLoop.simps [simp del]
declare pingLoop.simps [simp del]

lemma jitterLoop_sum:
  "jitterLoop samples i jitterSum =
     jitterSum + (\<Sum>k = i..<length samples. \<bar>samples ! k - samples ! (k - 1)\<bar>)"
proof (induction samples i jitterSum rule: jitterLoop.induct)
  case (1 samples i jitterSum)
  show ?case
  proof (cases "i < length samples")
    case True
    have "jitterLoop samples i jitterSum =
        jitterLoop samples (i + 1) (jitterSum + \<bar>samples ! i - samples ! (i - 1)\<bar>)"
      by (subst jitterLoop.simps) (simp add: True)
    also have "\<dots> = jitterSum + \<bar>samples ! i - samples ! (i - 1)\<bar>
        + (\<Sum>k = i + 1..<length samples. \<bar>samples ! k - samples ! (k - 1)\<bar>)"
      using "1.IH" [OF True] .
    also have "\<dots> = jitterSum + (\<Sum>k = i..<length samples. \<bar>samples ! k - samples ! (k - 1)\<bar>)"
      using True by (simp add: sum.atLeast_Suc_lessThan)
    finally show ?thesis .
  next
    case False
    then show ?thesis by (subst jitterLoop.simps) simp
  qed
qed

lemma calculateJitter_mean:
  "2 \<le> length s \<Longrightarrow>
     calculateJitter s = (\<Sum>i = 1..<length s. \<bar>s ! i - s ! (i - 1)\<bar>) / real (length s - 1)"
  by (simp add: calculateJitter_def jitterLoop_sum)

lemma foldl_plus_sum_list: "foldl (\<lambda>a b. a + b) (a::real) xs = a + sum_list xs"
  by (induction xs arbitrary: a) simp_all

lemma averageOf_sum_list: "averageOf xs = sum_list xs / real (length xs)"
  by (simp add: averageOf_def foldl_plus_sum_list)

lemma pingLoop_map_filter:
  "pingLoop pings count i acc = acc @ List.map_filter pings [i..<count]"
proof (induction pings count i acc rule: pingLoop.induct)
  case (1 pings count i acc)
  show ?case
  proof (cases "i < count")
    case True
    then have upt: "[i..<count] = i # [i + 1..<count]"
      by (simp add: upt_conv_Cons)
    have "pingLoop pings count i acc =
        pingLoop pings count (i + 1) (case pings i of Some l \<Rightarrow> acc @ [l] | None \<Rightarrow> acc)"
      by (subst pingLoop.simps) (simp add: True)
    also have "\<dots> = (case pings i of Some l \<Rightarrow> acc @ [l] | None \<Rightarrow> acc)
        @ List.map_filter pings [i + 1..<count]"
      using "1.IH" [OF True] .
    also have "\<dots> = acc @ List.map_filter pings [i..<count]"
      unfolding upt by (simp add: List.map_filter_simps split: option.split)
    finally show ?thesis .
  next
    case False
    then show ?thesis by (subst pingLoop.simps) (simp add: List.map_filter_simps)
  qed
qed

lemma upt_10: "[0..<10] = [0, 1, 2, 3, 4, 5, 6, 7, 8, 9::nat]"
  by (simp add: upt_rec)

section \<open>Jitter and average latency\<close>

text \<open>
  Claim C1 says that for a sample sequence of length 0 or 1 \<open>calculateJitter\<close>
  reports the jitter as undefined, never as 0. The code returns the number 0 at its
  first line: for no sample, for one sample, and so in the result of a ping test in
  which exactly one reply arrived.
\<close>

theorem jitter_short_counterexample:
  "calculateJitter [] = 0 \<and> calculateJitter [20] = 0 \<and>
   startPingTest (UDPSpeedTest_new\<lparr>serverInfo := Some ''udp-server''\<rparr>)
     (\<lambda>i. if i = 3 then Some 20 else None) = Inr (UdpPing 20 0 [20])"
  by (simp add: calculateJitter_def startPingTest_def pingLoop_map_filter UDPSpeedTest_new_def
      upt_10 List.map_filter_simps averageOf_def)

text \<open>
  Claim C1, amended: for every sample sequence of length 0 or 1, \<open>calculateJitter\<close>
  returns 0.
\<close>

theorem jitter_short_zero:
  "length samples < 2 \<Longrightarrow> calculateJitter samples = 0"
  by (simp add: calculateJitter_def)

theorem jitter_short_zero_witness:
  "length [20::real] < 2 \<and> calculateJitter [20] = 0"
  using jitter_short_zero [of "[20]"] by simp

text \<open>
  Claim C8: when the ping test collected the samples \<open>s\<close>, \<open>n \<ge> 2\<close> of them, the
  reported average is \<open>(\<Sum> s[i]) / n\<close> and the reported jitter is
  \<open>(\<Sum>\<^bsub>i=1..n-1\<^esub> |s[i] - s[i-1]|) / (n - 1)\<close>. The samples are the replies
  that arrived, in the order of the requests. For the samples 20, 22, 19, 30 the
  average is \<open>91 / 4 = 22.75\<close> and the jitter \<open>16 / 3\<close>, about 5.33.
\<close>

theorem ping_average_and_jitter:
  assumes "serverInfo u \<noteq> None"
    and "s = List.map_filter pings [0..<pingCount u]"
    and "2 \<le> length s"
  shows "startPingTest u pings =
     Inr (UdpPing (sum_list s / real (length s))
            ((\<Sum>i = 1..<length s. \<bar>s ! i - s ! (i - 1)\<bar>) / real (length s - 1)) s)"
proof -
  have loop: "pingLoop pings (pingCount u) 0 [] = s"
    using assms(2) by (simp add: pingLoop_map_filter)
  have pos: "0 < length s"
    using assms(3) by (cases s) simp_all
  show ?thesis
    using assms(1) pos
    by (simp add: startPingTest_def loop averageOf_sum_list calculateJitter_mean [OF assms(3)])
qed

theorem ping_average_and_jitter_witness:
  "startPingTest (UDPSpeedTest_new\<lparr>serverInfo := Some ''udp-server''\<rparr>)
     (\<lambda>i. if i = 0 then Some 20 else if i = 1 then Some 22 else if i = 2 then Some 19
           else if i = 3 then Some 30 else None)
   = Inr (UdpPing (91 / 4) (16 / 3) [20, 22, 19, 30])"
proof -
  let ?u = "UDPSpeedTest_new\<lparr>serverInfo := Some ''udp-server''\<rparr>"
  let ?p = "\<lambda>i::nat. if i = 0 then Some 20 else if i = 1 then Some 22 else if i = 2 then Some 19
           else if i = 3 then Some (30::real) else None"
  have s: "[20, 22, 19, 30] = List.map_filter ?p [0..<pingCount ?u]"
    by (simp add: UDPSpeedTest_new_def upt_10 List.map_filter_simps)
  have n: "serverInfo ?u \<noteq> None"
    by simp
  have l: "2 \<le> length [20, 22, 19, 30::real]"
    by simp
  have "(\<Sum>i = 1..<4. \<bar>[20, 22, 19, 30::real] ! i - [20, 22, 19, 30] ! (i - 1)\<bar>) = 16"
    by (simp add: sum.atLeast_Suc_lessThan numeral_nat)
  then show ?thesis
    using ping_average_and_jitter [OF n s l] by simp
qed

section \<open>Throughput\<close>

lemma speedMbpsOf_finite:
  "d \<noteq> 0 \<Longrightarrow> speedMbpsOf (Finite B) d = Finite (spec_throughputMbps B (d / 1000))"
  by (simp add: speedMbpsOf_def spec_throughputMbps_def)

lemma speedMbpsOf_zero:
  "0 \<le> B \<Longrightarrow> speedMbpsOf (Finite B) 0 = (if B = 0 then NaN else Infinity)"
  by (simp add: speedMbpsOf_def)

lemma spec_throughputMbps_nonneg:
  "0 \<le> B \<Longrightarrow> 0 \<le> T \<Longrightarrow> 0 \<le> spec_throughputMbps B T"
  by (simp add: spec_throughputMbps_def)

lemma handleIncomingData_frame:
  "startTime (downloadStats (fst (handleIncomingData now d w))) = startTime (downloadStats w)"
  "isTestRunning (fst (handleIncomingData now d w)) = isTestRunning w"
  "uploadStats (fst (handleIncomingData now d w)) = uploadStats w"
  "dataChannel (fst (handleIncomingData now d w)) = dataChannel w"
  by (simp_all add: handleIncomingData_def Let_def)

lemma handleIncomingData_stopped:
  "\<not> isTestRunning w \<Longrightarrow> fst (handleIncomingData now d w) = w"
  by (simp add: handleIncomingData_def)

lemma receiveAll_Nil: "receiveAll [] w = w"
  by (simp add: receiveAll_def)

lemma receiveAll_Cons:
  "receiveAll ((now, d) # msgs) w = receiveAll msgs (fst (handleIncomingData now d w))"
  by (simp add: receiveAll_def)

lemma receiveAll_stopped:
  "\<not> isTestRunning w \<Longrightarrow> receiveAll msgs w = w"
proof (induction msgs)
  case Nil
  show ?case by (simp add: receiveAll_Nil)
next
  case (Cons m msgs)
  obtain now d where m: "m = (now, d)" by (cases m)
  show ?case
    using Cons by (simp add: m receiveAll_Cons handleIncomingData_stopped)
qed

lemma receiveAll_startTime:
  "startTime (downloadStats (receiveAll msgs w)) = startTime (downloadStats w)"
proof (induction msgs arbitrary: w)
  case Nil
  show ?case by (simp add: receiveAll_Nil)
next
  case (Cons m msgs)
  obtain now d where m: "m = (now, d)" by (cases m)
  show ?case
    by (simp add: m receiveAll_Cons Cons.IH handleIncomingData_frame)
qed

lemma uploadTicks_startTime:
  "startTime_up (uploadStats (uploadTicks ticks w)) = startTime_up (uploadStats w)"
  by (induction ticks w rule: uploadTicks.induct) simp_all

lemma uploadTicks_bytes:
  "bytesSent (uploadStats w) = Finite (16384 * real (packetsSent (uploadStats w))) \<Longrightarrow>
   bytesSent (uploadStats (uploadTicks ticks w))
     = Finite (16384 * real (packetsSent (uploadStats (uploadTicks ticks w))))"
  by (induction ticks w rule: uploadTicks.induct) (simp_all add: algebra_simps)

lemmas webrtc_eval = WebRTCSpeedTest_new_def startDownloadTest_def startUploadTest_def
  stopDownloadTest_def stopUploadTest_def handleIncomingData_def updateDownloadSpeed_def
  receiveAll_def speedMbpsOf_def spec_throughputMbps_def Let_def

text \<open>
  Claim C3 says that the reported throughput is \<open>(B * 8) / (T * 1_000_000)\<close> with
  \<open>T\<close> measured from the first byte of the phase, not from the request of the phase.
  A download requested at clock reading 0 that receives three payloads of 16384 bytes
  at 100, 4000 and 9500 ms and is stopped at 10000 ms reports the formula's value for
  \<open>T = 10\<close> s, the time since the request, and not its value for the 9.9 s since the
  first byte.
\<close>

theorem throughput_first_byte_counterexample:
  "snd (stopDownloadTest 10000
         (receiveAll [(100, ArrayBuffer 16384), (4000, ArrayBuffer 16384), (9500, ArrayBuffer 16384)]
            (snd (startDownloadTest 0 (WebRTCSpeedTest_new\<lparr>dataChannel := Some Open\<rparr>)))))
     = Finite (spec_throughputMbps 49152 (10000 / 1000))
   \<and> snd (stopDownloadTest 10000
         (receiveAll [(100, ArrayBuffer 16384), (4000, ArrayBuffer 16384), (9500, ArrayBuffer 16384)]
            (snd (startDownloadTest 0 (WebRTCSpeedTest_new\<lparr>dataChannel := Some Open\<rparr>)))))
     \<noteq> Finite (spec_throughputMbps 49152 ((10000 - 100) / 1000))"
  by (simp add: webrtc_eval)

text \<open>
  Claim C3, amended: for a download or upload phase started on an open channel at clock
  reading \<open>t0\<close> and stopped at \<open>t1 \<noteq> t0\<close>, with a byte count \<open>B\<close> that is a
  finite number, the reported throughput is \<open>(B * 8) / (T * 1_000_000)\<close> Mbps, where
  \<open>T = (t1 - t0) / 1000\<close> is measured from the clock reading taken when the phase
  was requested. The byte count of an upload is 16384 times the packets sent.
\<close>

theorem throughput_from_phase_start:
  assumes "dataChannel w = Some Open"
    and "t1 \<noteq> t0"
    and "bytesReceived (downloadStats (receiveAll msgs (snd (startDownloadTest t0 w)))) = Finite B"
  shows "snd (stopDownloadTest t1 (receiveAll msgs (snd (startDownloadTest t0 w))))
           = Finite (spec_throughputMbps B ((t1 - t0) / 1000))
       \<and> snd (stopUploadTest t1 (uploadTicks ticks (snd (startUploadTest t0 w))))
           = Finite (spec_throughputMbps
               (16384 * real (packetsSent (uploadStats (uploadTicks ticks (snd (startUploadTest t0 w))))))
               ((t1 - t0) / 1000))"
proof
  let ?w = "receiveAll msgs (snd (startDownloadTest t0 w))"
  have st: "startTime (downloadStats ?w) = t0"
    using assms(1) by (simp add: receiveAll_startTime startDownloadTest_def)
  show "snd (stopDownloadTest t1 ?w) = Finite (spec_throughputMbps B ((t1 - t0) / 1000))"
    using assms(2) by (simp add: stopDownloadTest_def Let_def st assms(3) speedMbpsOf_finite)
next
  let ?ini = "snd (startUploadTest t0 w)"
  let ?fin = "uploadTicks ticks ?ini"
  have st: "startTime_up (uploadStats ?fin) = t0"
    using assms(1) by (simp add: uploadTicks_startTime startUploadTest_def)
  have "bytesSent (uploadStats ?ini) = Finite (16384 * real (packetsSent (uploadStats ?ini)))"
    using assms(1) by (simp add: startUploadTest_def)
  then have bs: "bytesSent (uploadStats ?fin) = Finite (16384 * real (packetsSent (uploadStats ?fin)))"
    by (rule uploadTicks_bytes)
  show "snd (stopUploadTest t1 ?fin)
      = Finite (spec_throughputMbps (16384 * real (packetsSent (uploadStats ?fin))) ((t1 - t0) / 1000))"
    using assms(2) by (simp add: stopUploadTest_def Let_def st bs speedMbpsOf_finite)
qed


theorem throughput_from_phase_start_witness:
  "snd (stopDownloadTest 10000
         (receiveAll [(100, ArrayBuffer 16384), (4000, ArrayBuffer 16384), (9500, ArrayBuffer 16384)]
            (snd (startDownloadTest 0 (WebRTCSpeedTest_new\<lparr>dataChannel := Some Open\<rparr>)))))
     = Finite (spec_throughputMbps 49152 10)
   \<and> snd (stopUploadTest 10000
         (uploadTicks [(10, True), (20, True)]
            (snd (startUploadTest 0 (WebRTCSpeedTest_new\<lparr>dataChannel := Some Open\<rparr>)))))
     = Finite (spec_throughputMbps 32768 10)"
  using throughput_from_phase_start [of "WebRTCSpeedTest_new\<lparr>dataChannel := Some Open\<rparr>" 10000 0
      "[(100, ArrayBuffer 16384), (4000, ArrayBuffer 16384), (9500, ArrayBuffer 16384)]" 49152
      "[(10, True), (20, True)]"]
  by (simp add: webrtc_eval)

text \<open>
  Claim C4 says that the throughput computation guards against zero elapsed time and
  reports the result as undefined instead of dividing by zero. A phase stopped at the
  clock reading of its start divides by zero: the reported number is \<open>NaN\<close> when no
  byte was counted and \<open>Infinity\<close> otherwise.
\<close>

theorem throughput_zero_elapsed_counterexample:
  "snd (stopDownloadTest 5
         (snd (startDownloadTest 5 (WebRTCSpeedTest_new\<lparr>dataChannel := Some Open\<rparr>)))) = NaN
   \<and> snd (stopDownloadTest 5
         (receiveAll [(5, ArrayBuffer 16384)]
            (snd (startDownloadTest 5 (WebRTCSpeedTest_new\<lparr>dataChannel := Some Open\<rparr>))))) = Infinity
   \<and> snd (stopUploadTest 5
         (uploadTicks [(5, True)]
            (snd (startUploadTest 5 (WebRTCSpeedTest_new\<lparr>dataChannel := Some Open\<rparr>))))) = Infinity"
  by (simp add: webrtc_eval)

text \<open>
  Claim C4, amended: the throughput computation has no guard. For a finite byte count
  \<open>B \<ge> 0\<close> and a clock that has not gone back, the reported value is the finite,
  non-negative \<open>(B * 8) / (T * 1_000_000)\<close> when the elapsed time is positive; when
  it is zero the division by zero is carried out and the reported value is \<open>NaN\<close> for
  \<open>B = 0\<close> and \<open>Infinity\<close> for \<open>B > 0\<close>.
\<close>

theorem throughput_unguarded:
  assumes "bytesReceived (downloadStats w) = Finite B" and "0 \<le> B"
    and "startTime (downloadStats w) \<le> now"
    and "bytesSent (uploadStats w) = Finite B'" and "0 \<le> B'"
    and "startTime_up (uploadStats w) \<le> now'"
  shows "snd (stopDownloadTest now w) =
           (if startTime (downloadStats w) < now
            then Finite (spec_throughputMbps B ((now - startTime (downloadStats w)) / 1000))
            else if B = 0 then NaN else Infinity)
       \<and> isFinite (snd (stopDownloadTest now w)) = (startTime (downloadStats w) < now)
       \<and> 0 \<le> spec_throughputMbps B ((now - startTime (downloadStats w)) / 1000)
       \<and> snd (stopUploadTest now' w) =
           (if startTime_up (uploadStats w) < now'
            then Finite (spec_throughputMbps B' ((now' - startTime_up (uploadStats w)) / 1000))
            else if B' = 0 then NaN else Infinity)
       \<and> isFinite (snd (stopUploadTest now' w)) = (startTime_up (uploadStats w) < now')
       \<and> 0 \<le> spec_throughputMbps B' ((now' - startTime_up (uploadStats w)) / 1000)"
proof -
  have down: "snd (stopDownloadTest now w) =
           (if startTime (downloadStats w) < now
            then Finite (spec_throughputMbps B ((now - startTime (downloadStats w)) / 1000))
            else if B = 0 then NaN else Infinity)"
  proof (cases "startTime (downloadStats w) < now")
    case True
    then have "now - startTime (downloadStats w) \<noteq> 0"
      by simp
    then show ?thesis
      using True by (simp add: stopDownloadTest_def Let_def assms(1) speedMbpsOf_finite)
  next
    case False
    with assms(3) have "now - startTime (downloadStats w) = 0"
      by simp
    then show ?thesis
      using False assms(2) by (simp add: stopDownloadTest_def Let_def assms(1) speedMbpsOf_zero)
  qed
  have up: "snd (stopUploadTest now' w) =
           (if startTime_up (uploadStats w) < now'
            then Finite (spec_throughputMbps B' ((now' - startTime_up (uploadStats w)) / 1000))
            else if B' = 0 then NaN else Infinity)"
  proof (cases "startTime_up (uploadStats w) < now'")
    case True
    then have "now' - startTime_up (uploadStats w) \<noteq> 0"
      by simp
    then show ?thesis
      using True by (simp add: stopUploadTest_def Let_def assms(4) speedMbpsOf_finite)
  next
    case False
    with assms(6) have "now' - startTime_up (uploadStats w) = 0"
      by simp
    then show ?thesis
      using False assms(5) by (simp add: stopUploadTest_def Let_def assms(4) speedMbpsOf_zero)
  qed
  have fin_down: "isFinite (snd (stopDownloadTest now w)) = (startTime (downloadStats w) < now)"
    unfolding down by simp
  have fin_up: "isFinite (snd (stopUploadTest now' w)) = (startTime_up (uploadStats w) < now')"
    unfolding up by simp
  have nonneg_down: "0 \<le> spec_throughputMbps B ((now - startTime (downloadStats w)) / 1000)"
    using assms(2,3) by (simp add: spec_throughputMbps_nonneg)
  have nonneg_up: "0 \<le> spec_throughputMbps B' ((now' - startTime_up (uploadStats w)) / 1000)"
    using assms(5,6) by (simp add: spec_throughputMbps_nonneg)
  from down up fin_down fin_up nonneg_down nonneg_up show ?thesis
    by blast
qed

theorem throughput_unguarded_witness:
  "snd (stopDownloadTest 10000
         (receiveAll [(100, ArrayBuffer 16384)]
            (snd (startDownloadTest 0 (WebRTCSpeedTest_new\<lparr>dataChannel := Some Open\<rparr>)))))
     = Finite (spec_throughputMbps 16384 10)
   \<and> snd (stopDownloadTest 5
         (receiveAll [(5, ArrayBuffer 16384)]
            (snd (startDownloadTest 5 (WebRTCSpeedTest_new\<lparr>dataChannel := Some Open\<rparr>)))))
     = Infinity"
  using throughput_unguarded [of "receiveAll [(100, ArrayBuffer 16384)]
            (snd (startDownloadTest 0 (WebRTCSpeedTest_new\<lparr>dataChannel := Some Open\<rparr>)))"
          16384 10000 0 10000]
        throughput_unguarded [of "receiveAll [(5, ArrayBuffer 16384)]
            (snd (startDownloadTest 5 (WebRTCSpeedTest_new\<lparr>dataChannel := Some Open\<rparr>)))"
          16384 5 0 5]
  by (simp add: WebRTCSpeedTest_new_def startDownloadTest_def handleIncomingData_def
      updateDownloadSpeed_def receiveAll_def Let_def)

section \<open>Payloads after the end of a download\<close>

text \<open>
  Claim C10 says that after \<open>stopDownloadTest\<close> every later call of
  \<open>handleIncomingData\<close> leaves \<open>bytesReceived\<close> and \<open>packetsReceived\<close>
  unchanged. \<open>isTestRunning\<close> is the one flag of both phases: the upload that follows
  the download sets it again, and a payload that arrives then is counted in
  \<open>downloadStats\<close>.
\<close>

theorem stopped_download_counterexample:
  "bytesReceived (downloadStats (fst (stopDownloadTest 10000
      (snd (startDownloadTest 0 (WebRTCSpeedTest_new\<lparr>dataChannel := Some Open\<rparr>)))))) = Finite 0
   \<and> bytesReceived (downloadStats (fst (handleIncomingData 11050 (ArrayBuffer 16384)
      (snd (startUploadTest 11000 (fst (stopDownloadTest 10000
        (snd (startDownloadTest 0 (WebRTCSpeedTest_new\<lparr>dataChannel := Some Open\<rparr>))))))))))
      = Finite 16384
   \<and> packetsReceived (downloadStats (fst (handleIncomingData 11050 (ArrayBuffer 16384)
      (snd (startUploadTest 11000 (fst (stopDownloadTest 10000
        (snd (startDownloadTest 0 (WebRTCSpeedTest_new\<lparr>dataChannel := Some Open\<rparr>))))))))))
      = 1"
  by (simp add: webrtc_eval)

text \<open>
  Claim C10, amended: \<open>stopDownloadTest\<close> sets \<open>isTestRunning\<close> to false, and the
  calls of \<open>handleIncomingData\<close> that follow it, as long as no test is started again,
  leave \<open>downloadStats\<close> as it was when the test stopped.
\<close>

theorem stopped_download_ignores_data:
  "isTestRunning (fst (stopDownloadTest now w)) = False
   \<and> downloadStats (receiveAll msgs (fst (stopDownloadTest now w))) = downloadStats w"
  by (simp add: receiveAll_stopped stopDownloadTest_def Let_def)

section \<open>Protocol selection and the order of the attempts\<close>

lemma includes_of_set: "includes_of xs x = (x \<in> set xs)"
  by (induction xs) auto

lemma runProtocolTest_http: "runProtocolTest e env ''http'' = runHTTPTest e"
  by (simp add: runProtocolTest_def)

lemma initialize_available:
  "availableProtocols (snd (initialize ienv MultiProtocolSpeedTest_new)) =
     (if hasWebRTC ienv \<and> peerConnectionOk ienv then [''webrtc''] else []) @
     (if hasUDP ienv \<and> udpServer ienv \<noteq> None then [''udp''] else []) @ [''http'']"
  by (simp add: initialize_def setupProtocolSelector_def MultiProtocolSpeedTest_new_def Let_def)

lemma keys_assign:
  "map fst (assign k v kvs) = (if k \<in> set (map fst kvs) then map fst kvs else map fst kvs @ [k])"
  by (induction kvs) (auto simp: rev_image_eqI)

lemma key_set_assign: "fst ` set (assign k v kvs) = insert k (fst ` set kvs)"
  using keys_assign [of k v kvs, THEN arg_cong, of set] by auto

lemma comparisonLoop_attempted:
  "fst (comparisonLoop e env ps (attempted, results)) = attempted @ ps"
  by (induction ps arbitrary: attempted results) simp_all

lemma comparisonLoop_keys:
  "distinct (map fst results @ ps) \<Longrightarrow>
   map fst (snd (comparisonLoop e env ps (attempted, results))) = map fst results @ ps"
proof (induction ps arbitrary: attempted results)
  case Nil
  show ?case by simp
next
  case (Cons p ps)
  let ?results = "case runProtocolTest e env p of
           Inr testResult \<Rightarrow> assign p (Tested (testResult\<lparr>protocol := p\<rparr>)) results
         | Inl err \<Rightarrow> assign p (Failed (message err) p) results"
  from Cons.prems have fresh: "p \<notin> set (map fst results)" by auto
  then have keys: "map fst ?results = map fst results @ [p]"
    by (simp add: keys_assign split: sum.split)
  from Cons.prems have "distinct (map fst ?results @ ps)"
    unfolding keys by simp
  then have "map fst (snd (comparisonLoop e env ps (attempted @ [p], ?results)))
      = map fst ?results @ ps"
    by (rule Cons.IH)
  then show ?case
    unfolding keys by simp
qed

lemma comparisonLoop_key_set:
  "fst ` set (snd (comparisonLoop e env ps (attempted, results))) = fst ` set results \<union> set ps"
proof (induction ps arbitrary: attempted results)
  case Nil
  show ?case by simp
next
  case (Cons p ps)
  let ?results = "case runProtocolTest e env p of
           Inr testResult \<Rightarrow> assign p (Tested (testResult\<lparr>protocol := p\<rparr>)) results
         | Inl err \<Rightarrow> assign p (Failed (message err) p) results"
  have "fst ` set ?results = insert p (fst ` set results)"
    by (simp only: key_set_assign split: sum.split) simp
  then show ?case
    by (simp add: Cons.IH)
qed

lemma runComparisonTest_fresh:
  "fst (runComparisonTest (snd (initialize ienv MultiProtocolSpeedTest_new)) env)
     = availableProtocols (snd (initialize ienv MultiProtocolSpeedTest_new))"
  "map fst (snd (runComparisonTest (snd (initialize ienv MultiProtocolSpeedTest_new)) env))
     = availableProtocols (snd (initialize ienv MultiProtocolSpeedTest_new))"
proof -
  let ?e = "snd (initialize ienv MultiProtocolSpeedTest_new)"
  have d: "distinct (availableProtocols ?e)"
    by (auto simp: initialize_available)
  show "fst (runComparisonTest ?e env) = availableProtocols ?e"
    by (simp add: runComparisonTest_def comparisonLoop_attempted)
  show "map fst (snd (runComparisonTest ?e env)) = availableProtocols ?e"
    using d by (simp add: runComparisonTest_def comparisonLoop_keys)
qed

text \<open>
  Claim C7: in Single mode with the protocol \<open>auto\<close> the selected protocol, which is
  the first one handed to \<open>runProtocolTest\<close>, is \<open>udp\<close> when it is available,
  otherwise \<open>webrtc\<close> when that is available, otherwise \<open>http\<close>.
\<close>

theorem auto_selects_by_priority:
  assumes "currentProtocol e = ''auto''"
  shows "getSelectedProtocol e =
           (if ''udp'' \<in> set (availableProtocols e) then ''udp''
            else if ''webrtc'' \<in> set (availableProtocols e) then ''webrtc''
            else ''http'')
       \<and> hd (fst (runSingleProtocolTest e env)) = getSelectedProtocol e"
proof
  show "getSelectedProtocol e =
           (if ''udp'' \<in> set (availableProtocols e) then ''udp''
            else if ''webrtc'' \<in> set (availableProtocols e) then ''webrtc''
            else ''http'')"
    using assms by (simp add: getSelectedProtocol_def includes_of_set)
  show "hd (fst (runSingleProtocolTest e env)) = getSelectedProtocol e"
    by (simp add: runSingleProtocolTest_def Let_def split: sum.split)
qed

theorem auto_selects_by_priority_witness:
  "getSelectedProtocol ((snd (initialize full_page MultiProtocolSpeedTest_new))
       \<lparr>currentProtocol := ''auto''\<rparr>) = ''udp''
   \<and> getSelectedProtocol ((snd (initialize page_without_udp MultiProtocolSpeedTest_new))
       \<lparr>currentProtocol := ''auto''\<rparr>) = ''webrtc''"
  using auto_selects_by_priority [of "(snd (initialize full_page MultiProtocolSpeedTest_new))
       \<lparr>currentProtocol := ''auto''\<rparr>" silent_network]
    auto_selects_by_priority [of "(snd (initialize page_without_udp MultiProtocolSpeedTest_new))
       \<lparr>currentProtocol := ''auto''\<rparr>" silent_network]
  by (simp add: initialize_available full_page_def page_without_udp_def)

text \<open>
  Claim C2 says that in Single mode a failed protocol is followed by the next one of
  the chain \<open>udp\<close>, \<open>webrtc\<close>, \<open>http\<close>. On a page without the UDP test script,
  where \<open>webrtc\<close> and \<open>http\<close> are available and the WebRTC test object exists, a
  run with \<open>udp\<close> selected fails in \<open>runUDPTest\<close> and then goes to \<open>http\<close>;
  \<open>webrtc\<close> is not attempted.
\<close>

theorem single_fallback_counterexample:
  "availableProtocols (snd (initialize page_without_udp MultiProtocolSpeedTest_new))
     = [''webrtc'', ''http'']
   \<and> webrtcTest (snd (initialize page_without_udp MultiProtocolSpeedTest_new))
     = Some WebRTCSpeedTest_new
   \<and> runProtocolTest ((snd (initialize page_without_udp MultiProtocolSpeedTest_new))
        \<lparr>currentProtocol := ''udp'', comparisonMode := False\<rparr>) silent_network ''udp''
     = Inl (Error ''UDP testing not available'')
   \<and> fst (runSingleProtocolTest ((snd (initialize page_without_udp MultiProtocolSpeedTest_new))
        \<lparr>currentProtocol := ''udp'', comparisonMode := False\<rparr>) silent_network)
     = [''udp'', ''http'']"
  by (simp add: initialize_def setupProtocolSelector_def MultiProtocolSpeedTest_new_def
      page_without_udp_def runSingleProtocolTest_def getSelectedProtocol_def runProtocolTest_def
      runUDPTest_def runHTTPTest_def Let_def)

text \<open>
  Claim C2, amended: in Single mode, when the test of the selected protocol throws,
  \<open>autoFallback\<close> is set and the protocol is not \<open>http\<close>, the engine attempts
  \<open>http\<close> next and nothing else, whatever else is available; in every other case
  the selected protocol is the only attempt. The run throws exactly when the test of
  the selected protocol throws and there is no such fallback.
\<close>

theorem single_fallback_is_http:
  "fst (runSingleProtocolTest e env) =
     (if isl (runProtocolTest e env (getSelectedProtocol e)) \<and> autoFallback e
         \<and> getSelectedProtocol e \<noteq> ''http''
      then [getSelectedProtocol e, ''http''] else [getSelectedProtocol e])
   \<and> isl (snd (runSingleProtocolTest e env))
       = (isl (runProtocolTest e env (getSelectedProtocol e))
          \<and> \<not> (autoFallback e \<and> getSelectedProtocol e \<noteq> ''http''))"
  by (auto simp: runSingleProtocolTest_def Let_def runProtocolTest_http runHTTPTest_def
      split: sum.split)

text \<open>
  Claim C6 says that in Comparison mode the protocols are attempted, and their results
  listed, in the order \<open>udp\<close>, \<open>webrtc\<close>, \<open>http\<close>. \<open>initialize\<close> pushes
  \<open>webrtc\<close> before \<open>udp\<close>, and \<open>runComparisonTest\<close> goes through
  \<open>availableProtocols\<close> as it is.
\<close>

theorem comparison_order_counterexample:
  "fst (runComparisonTest (snd (initialize full_page MultiProtocolSpeedTest_new)) silent_network)
     = [''webrtc'', ''udp'', ''http'']
   \<and> map fst (snd (runComparisonTest (snd (initialize full_page MultiProtocolSpeedTest_new))
                     silent_network))
     = [''webrtc'', ''udp'', ''http'']
   \<and> [''webrtc'', ''udp'', ''http''] \<noteq> [''udp'', ''webrtc'', ''http'']"
  by (simp add: runComparisonTest_fresh initialize_available full_page_def)

text \<open>
  Claim C6, amended: in Comparison mode the protocols attempted are
  \<open>availableProtocols\<close> in its own order. On an engine that is new when
  \<open>initialize\<close> runs, that order is the available ones of \<open>webrtc\<close>, \<open>udp\<close>,
  \<open>http\<close> in this order, each once, and on such an engine the keys of the results
  object are in the same order as the attempts. Nothing is claimed of the keys on any
  other engine.
\<close>

theorem comparison_order_is_initialize_order:
  "fst (runComparisonTest e env) = availableProtocols e
   \<and> fst (runComparisonTest (snd (initialize ienv MultiProtocolSpeedTest_new)) env)
     = filter (\<lambda>p. p \<in> set (availableProtocols (snd (initialize ienv MultiProtocolSpeedTest_new))))
         [''webrtc'', ''udp'', ''http'']
   \<and> map fst (snd (runComparisonTest (snd (initialize ienv MultiProtocolSpeedTest_new)) env))
     = fst (runComparisonTest (snd (initialize ienv MultiProtocolSpeedTest_new)) env)"
proof -
  let ?e = "snd (initialize ienv MultiProtocolSpeedTest_new)"
  have "fst (runComparisonTest e env) = availableProtocols e"
    by (simp add: runComparisonTest_def comparisonLoop_attempted)
  moreover have "availableProtocols ?e
      = filter (\<lambda>p. p \<in> set (availableProtocols ?e)) [''webrtc'', ''udp'', ''http'']"
    by (auto simp: initialize_available)
  ultimately show ?thesis
    by (simp only: runComparisonTest_fresh)
qed

section \<open>Failures of phases and protocols\<close>

text \<open>
  Claim C5 says that every phase yields a terminal result, also a ping phase in which
  no reply arrived. \<open>startPingTest\<close> throws in that case, and \<open>runUDPTest\<close>, which
  catches the error, leaves \<open>results.ping\<close> at \<open>null\<close>.
\<close>

theorem ping_without_reply_counterexample:
  "startPingTest (UDPSpeedTest_new\<lparr>serverInfo := Some ''udp-server''\<rparr>) (\<lambda>i. None)
     = Inl (Error ''No successful ping responses received'')
   \<and> runUDPTest (snd (initialize full_page MultiProtocolSpeedTest_new)) silent_network
     = Inr \<lparr>ping = None, download = None,
            upload = Some (UdpTransfer 10000 0 0 (Finite 0)), protocol = ''udp''\<rparr>"
  by (simp add: startPingTest_def pingLoop_map_filter UDPSpeedTest_new_def upt_10
      List.map_filter_simps runUDPTest_def initialize_def setupProtocolSelector_def
      MultiProtocolSpeedTest_new_def full_page_def silent_network_def udp_startDownloadTest_def
      udp_startUploadTest_def speedMbpsOf_def Let_def)

text \<open>
  Claim C5, amended: a ping phase in which no reply arrived throws; \<open>runUDPTest\<close>
  catches what a phase throws, leaves the result of that phase \<open>null\<close> and runs the
  remaining phases, of which the upload always yields a result, so \<open>runUDPTest\<close>
  returns; and \<open>runComparisonTest\<close> returns with an entry for every available
  protocol, whether its test threw or not.
\<close>

theorem phase_errors_are_caught:
  assumes "udpTest e = Some u"
    and "serverInfo u \<noteq> None"
    and "List.map_filter (udpPings env) [0..<pingCount u] = []"
  shows "startPingTest u (udpPings env) = Inl (Error ''No successful ping responses received'')
       \<and> runUDPTest e env =
           Inr \<lparr>ping = None,
                download = caught (udp_startDownloadTest u (udpDownloadStart env) (udpDownloadEvents env)),
                upload = caught (udp_startUploadTest u (udpUploadStart env) (udpUploadStop env)
                                   (udpUploadCount env)),
                protocol = ''udp''\<rparr>
       \<and> (\<exists>r. udp_startUploadTest u (udpUploadStart env) (udpUploadStop env) (udpUploadCount env) = Inr r)
       \<and> fst ` set (snd (runComparisonTest e env)) = set (availableProtocols e)"
proof -
  have p: "startPingTest u (udpPings env) = Inl (Error ''No successful ping responses received'')"
    using assms(2,3) by (simp add: startPingTest_def pingLoop_map_filter)
  have "runUDPTest e env =
           Inr \<lparr>ping = None,
                download = caught (udp_startDownloadTest u (udpDownloadStart env) (udpDownloadEvents env)),
                upload = caught (udp_startUploadTest u (udpUploadStart env) (udpUploadStop env)
                                   (udpUploadCount env)),
                protocol = ''udp''\<rparr>"
    by (simp add: runUDPTest_def assms(1) p)
  moreover have "\<exists>r. udp_startUploadTest u (udpUploadStart env) (udpUploadStop env) (udpUploadCount env) = Inr r"
    using assms(2) by (simp add: udp_startUploadTest_def Let_def)
  moreover have "fst ` set (snd (runComparisonTest e env)) = set (availableProtocols e)"
    by (simp add: runComparisonTest_def comparisonLoop_key_set)
  ultimately show ?thesis using p by simp
qed

theorem phase_errors_are_caught_witness:
  "runUDPTest (snd (initialize full_page MultiProtocolSpeedTest_new)) silent_network
     = Inr \<lparr>ping = None, download = None,
            upload = Some (UdpTransfer 10000 0 0 (Finite 0)), protocol = ''udp''\<rparr>
   \<and> fst ` set (snd (runComparisonTest (snd (initialize full_page MultiProtocolSpeedTest_new))
                        silent_network))
     = {''webrtc'', ''udp'', ''http''}"
  using phase_errors_are_caught [of "snd (initialize full_page MultiProtocolSpeedTest_new)"
      "UDPSpeedTest_new\<lparr>serverInfo := Some ''udp-server''\<rparr>" silent_network]
  by (simp add: initialize_def setupProtocolSelector_def MultiProtocolSpeedTest_new_def
      full_page_def silent_network_def UDPSpeedTest_new_def upt_10 List.map_filter_simps
      udp_startDownloadTest_def udp_startUploadTest_def speedMbpsOf_def Let_def insert_commute)

section \<open>The HTTP test\<close>

text \<open>
  Claim C9: \<open>runHTTPTest\<close> resolves to the same constant result, ping average 50,
  download 100 Mbps and upload 50 Mbps, whatever the state of the engine and of the
  network; nothing is measured.
\<close>

theorem http_test_is_constant:
  "runHTTPTest e = Inr \<lparr>ping = Some (Average (Some 50) ''http''),
                        download = Some (Speed (Finite 100) ''http''),
                        upload = Some (Speed (Finite 50) ''http''),
                        protocol = ''http''\<rparr>
   \<and> runProtocolTest e env ''http''
       = Inr \<lparr>ping = Some (Average (Some 50) ''http''),
              download = Some (Speed (Finite 100) ''http''),
              upload = Some (Speed (Finite 50) ''http''),
              protocol = ''http''\<rparr>"
  by (simp add: runHTTPTest_def runProtocolTest_def)

end
